theory Spec2Isabelle
  imports Complex_Main "HOL-Library.Multiset" "HOL-Library.List_Lexorder" "HOL-Library.Char_ord"
begin

section \<open>Numbers as pandas holds them\<close>

text \<open>
  The module \<^verbatim>\<open>scripts/utils/processing.py\<close> is ten short functions over pandas
  DataFrames; each filters or groups a table and hands numbers to pandas or scipy.
  A numeric cell is a float64 (or an int64 that pandas divides as a float): a finite
  number, one of the two infinities, or NaN, which pandas also uses for a missing value.
  Finite numbers are modelled as exact reals, so the rounding of float64, the wrap-around
  of int64 and the sign of a zero are outside the model; NaN and the infinities, which
  decide what the functions do on empty groups and on a zero divisor, are inside it.
\<close>

datatype pyfloat = Fin real | PosInf | NegInf | NaN

fun fneg :: "pyfloat \<Rightarrow> pyfloat" where
  "fneg (Fin x) = Fin (- x)"
| "fneg PosInf = NegInf"
| "fneg NegInf = PosInf"
| "fneg NaN = NaN"

fun fadd :: "pyfloat \<Rightarrow> pyfloat \<Rightarrow> pyfloat" where
  "fadd (Fin x) (Fin y) = Fin (x + y)"
| "fadd NaN _ = NaN"
| "fadd _ NaN = NaN"
| "fadd PosInf NegInf = NaN"
| "fadd NegInf PosInf = NaN"
| "fadd PosInf _ = PosInf"
| "fadd _ PosInf = PosInf"
| "fadd NegInf _ = NegInf"
| "fadd _ NegInf = NegInf"

definition fsub :: "pyfloat \<Rightarrow> pyfloat \<Rightarrow> pyfloat" where
  "fsub a b = fadd a (fneg b)"

fun fmul :: "pyfloat \<Rightarrow> pyfloat \<Rightarrow> pyfloat" where
  "fmul (Fin x) (Fin y) = Fin (x * y)"
| "fmul NaN _ = NaN"
| "fmul _ NaN = NaN"
| "fmul (Fin x) PosInf = (if x = 0 then NaN else if 0 < x then PosInf else NegInf)"
| "fmul (Fin x) NegInf = (if x = 0 then NaN else if 0 < x then NegInf else PosInf)"
| "fmul PosInf (Fin y) = (if y = 0 then NaN else if 0 < y then PosInf else NegInf)"
| "fmul NegInf (Fin y) = (if y = 0 then NaN else if 0 < y then NegInf else PosInf)"
| "fmul PosInf PosInf = PosInf"
| "fmul NegInf NegInf = PosInf"
| "fmul PosInf NegInf = NegInf"
| "fmul NegInf PosInf = NegInf"

text \<open>
  Division of one column by another is numpy's true division: a zero divisor raises
  nothing, it gives an infinity of the dividend's sign, and NaN for \<open>0 / 0\<close>.
\<close>

fun fdiv :: "pyfloat \<Rightarrow> pyfloat \<Rightarrow> pyfloat" where
  "fdiv (Fin x) (Fin y) =
     (if y \<noteq> 0 then Fin (x / y)
      else if x = 0 then NaN else if 0 < x then PosInf else NegInf)"
| "fdiv NaN _ = NaN"
| "fdiv _ NaN = NaN"
| "fdiv (Fin x) _ = Fin 0"
| "fdiv PosInf (Fin y) = (if 0 \<le> y then PosInf else NegInf)"
| "fdiv NegInf (Fin y) = (if 0 \<le> y then NegInf else PosInf)"
| "fdiv _ _ = NaN"

text \<open>Python's \<open>>\<close> and \<open><\<close> on floats: every comparison with NaN is false.\<close>

fun fgt :: "pyfloat \<Rightarrow> pyfloat \<Rightarrow> bool" where
  "fgt (Fin x) (Fin y) = (y < x)"
| "fgt NaN _ = False"
| "fgt _ NaN = False"
| "fgt PosInf PosInf = False"
| "fgt PosInf _ = True"
| "fgt _ PosInf = False"
| "fgt NegInf _ = False"
| "fgt _ NegInf = True"

definition flt :: "pyfloat \<Rightarrow> pyfloat \<Rightarrow> bool" where
  "flt a b = fgt b a"

definition fge :: "pyfloat \<Rightarrow> pyfloat \<Rightarrow> bool" where
  "fge a b = (a \<noteq> NaN \<and> b \<noteq> NaN \<and> \<not> fgt b a)"

section \<open>Tables\<close>

text \<open>
  A cell is a number or a string. A column label is a name, or a pair of names in the
  two-level header that \<^verbatim>\<open>agg(["sum", "mean"])\<close> builds. A row is its index label
  and its cells by column; a cell that a row does not hold reads as NaN, as it does in a
  DataFrame built from records.
\<close>

datatype cell = Num pyfloat | Str string

datatype collabel = Col string | MCol string string

type_synonym row = "(collabel \<times> cell) list"

record dataframe =
  columns :: "collabel list"
  index_name :: "collabel option"
  rows :: "(cell \<times> row) list"

datatype error = KeyError collabel | ValueError | TypeError | IndexError | NotModelled

definition cell_at :: "row \<Rightarrow> collabel \<Rightarrow> cell" where
  "cell_at r c = (case map_of r c of Some v \<Rightarrow> v | None \<Rightarrow> Num NaN)"

definition range_index :: "nat \<Rightarrow> cell list" where
  "range_index n = map (\<lambda>i. Num (Fin (real i))) [0..<n]"

text \<open>\<^verbatim>\<open>df[name]\<close>: the column's cells in row order, KeyError when there is no such column.\<close>

definition get_column :: "dataframe \<Rightarrow> collabel \<Rightarrow> error + cell list" where
  "get_column df c =
     (if c \<in> set (columns df) then Inr (map (\<lambda>(i, r). cell_at r c) (rows df))
      else Inl (KeyError c))"

text \<open>\<^verbatim>\<open>df[flags]\<close>: the rows whose flag is true, in order, index labels kept.\<close>

definition select_rows :: "bool list \<Rightarrow> dataframe \<Rightarrow> dataframe" where
  "select_rows keep df = df\<lparr>rows := map snd (filter fst (zip keep (rows df)))\<rparr>"

text \<open>
  \<^verbatim>\<open>series == scalar\<close> is false on a missing value; \<^verbatim>\<open>series.isin(values)\<close> is
  membership, and a NaN among the values does match a missing cell.
\<close>

definition py_eq :: "cell \<Rightarrow> cell \<Rightarrow> bool" where
  "py_eq a b = (a \<noteq> Num NaN \<and> b \<noteq> Num NaN \<and> a = b)"

definition isin :: "cell list \<Rightarrow> cell list \<Rightarrow> bool list" where
  "isin vs vals = map (\<lambda>v. v \<in> set vals) vs"

subsection \<open>Reductions of a column\<close>

text \<open>
  \<^verbatim>\<open>sum\<close> and \<^verbatim>\<open>mean\<close> skip missing values: the sum of no values is 0, the mean of
  no values is NaN. A string in a column that is reduced is reported as TypeError; pandas
  concatenates strings under \<^verbatim>\<open>sum\<close>, which is not modelled, and every theorem about a
  reduction is about numeric columns.
\<close>

fun numeric_values :: "cell list \<Rightarrow> error + pyfloat list" where
  "numeric_values [] = Inr []"
| "numeric_values (Str s # cs) = Inl TypeError"
| "numeric_values (Num x # cs) =
     (case numeric_values cs of Inl e \<Rightarrow> Inl e | Inr xs \<Rightarrow> Inr (x # xs))"

definition dropna :: "pyfloat list \<Rightarrow> pyfloat list" where
  "dropna xs = filter (\<lambda>x. x \<noteq> NaN) xs"

definition nansum :: "pyfloat list \<Rightarrow> pyfloat" where
  "nansum xs = foldl fadd (Fin 0) (dropna xs)"

definition nanmean :: "pyfloat list \<Rightarrow> pyfloat" where
  "nanmean xs =
     (if dropna xs = [] then NaN else fdiv (nansum xs) (Fin (real (length (dropna xs)))))"

definition series_sum :: "cell list \<Rightarrow> error + pyfloat" where
  "series_sum cs = (case numeric_values cs of Inl e \<Rightarrow> Inl e | Inr xs \<Rightarrow> Inr (nansum xs))"

definition series_mean :: "cell list \<Rightarrow> error + pyfloat" where
  "series_mean cs = (case numeric_values cs of Inl e \<Rightarrow> Inl e | Inr xs \<Rightarrow> Inr (nanmean xs))"

subsection \<open>The order of group keys\<close>

text \<open>
  \<^verbatim>\<open>groupby\<close> sorts the group keys (\<^verbatim>\<open>sort=True\<close> is its default). Numbers come in
  their numeric order, strings in code-point order, and numbers before strings. The order
  is total so that it can sort; NaN is put last, and \<^verbatim>\<open>groupby\<close> drops it before it
  sorts. It is not Python's \<open><\<close>, which is \<^const>\<open>flt\<close>.
\<close>

fun float_le :: "pyfloat \<Rightarrow> pyfloat \<Rightarrow> bool" where
  "float_le (Fin x) (Fin y) = (x \<le> y)"
| "float_le _ NaN = True"
| "float_le NaN _ = False"
| "float_le NegInf _ = True"
| "float_le _ NegInf = False"
| "float_le _ PosInf = True"
| "float_le PosInf _ = False"

fun cell_le :: "cell \<Rightarrow> cell \<Rightarrow> bool" where
  "cell_le (Num a) (Num b) = float_le a b"
| "cell_le (Num a) (Str t) = True"
| "cell_le (Str s) (Num b) = False"
| "cell_le (Str s) (Str t) = (s \<le> t)"

instantiation cell :: linorder
begin

definition less_eq_cell :: "cell \<Rightarrow> cell \<Rightarrow> bool" where
  "less_eq_cell a b = cell_le a b"

definition less_cell :: "cell \<Rightarrow> cell \<Rightarrow> bool" where
  "less_cell a b = (cell_le a b \<and> \<not> cell_le b a)"

instance
proof
  fix x y z :: cell
  have refl: "float_le a a" for a
    by (cases a) auto
  have trans: "float_le a b \<Longrightarrow> float_le b c \<Longrightarrow> float_le a c" for a b c
    by (cases a; cases b; cases c) auto
  have antisym: "float_le a b \<Longrightarrow> float_le b a \<Longrightarrow> a = b" for a b
    by (cases a; cases b) auto
  have linear: "float_le a b \<or> float_le b a" for a b
    by (cases a; cases b) auto
  show "(x < y) = (x \<le> y \<and> \<not> y \<le> x)"
    by (simp add: less_cell_def less_eq_cell_def)
  show "x \<le> x"
    by (cases x) (simp_all add: less_eq_cell_def refl)
  show "x \<le> y \<Longrightarrow> y \<le> z \<Longrightarrow> x \<le> z"
    by (cases x; cases y; cases z) (auto simp: less_eq_cell_def intro: trans)
  show "x \<le> y \<Longrightarrow> y \<le> x \<Longrightarrow> x = y"
    by (cases x; cases y) (auto simp: less_eq_cell_def intro: antisym)
  show "x \<le> y \<or> y \<le> x"
    using linear by (cases x; cases y) (auto simp: less_eq_cell_def)
qed

end

subsection \<open>Grouping\<close>

text \<open>
  \<^verbatim>\<open>df.groupby(name)\<close>: one group per distinct value of the column that is not missing
  (\<^verbatim>\<open>dropna=True\<close>), the keys in ascending order, each group the rows that hold the key,
  in row order.
\<close>

definition group_keys :: "cell list \<Rightarrow> cell list" where
  "group_keys vs = sort (remdups (filter (\<lambda>v. v \<noteq> Num NaN) vs))"

definition group_rows :: "dataframe \<Rightarrow> collabel \<Rightarrow> cell \<Rightarrow> (cell \<times> row) list" where
  "group_rows df c k = filter (\<lambda>(i, r). cell_at r c = k) (rows df)"

definition groupby :: "dataframe \<Rightarrow> collabel \<Rightarrow> error + (cell \<times> (cell \<times> row) list) list" where
  "groupby df c =
     (case get_column df c of
        Inl e \<Rightarrow> Inl e
      | Inr vs \<Rightarrow> Inr (map (\<lambda>k. (k, group_rows df c k)) (group_keys vs)))"

definition column_of :: "collabel \<Rightarrow> (cell \<times> row) list \<Rightarrow> cell list" where
  "column_of c grp = map (\<lambda>(i, r). cell_at r c) grp"

fun sequence_err :: "(error + 'a) list \<Rightarrow> error + 'a list" where
  "sequence_err [] = Inr []"
| "sequence_err (Inl e # rs) = Inl e"
| "sequence_err (Inr x # rs) =
     (case sequence_err rs of Inl e \<Rightarrow> Inl e | Inr xs \<Rightarrow> Inr (x # xs))"

subsection \<open>Columns of a table\<close>

fun put :: "collabel \<Rightarrow> cell \<Rightarrow> row \<Rightarrow> row" where
  "put c v [] = [(c, v)]"
| "put c v ((c', v') # r) = (if c' = c then (c, v) # r else (c', v') # put c v r)"

text \<open>\<^verbatim>\<open>df[name] = series\<close>: the column is replaced, or added as the last one.\<close>

definition set_column :: "dataframe \<Rightarrow> collabel \<Rightarrow> cell list \<Rightarrow> dataframe" where
  "set_column df c vs =
     df\<lparr>columns := (if c \<in> set (columns df) then columns df else columns df @ [c]),
        rows := map (\<lambda>((i, r), v). (i, put c v r)) (zip (rows df) vs)\<rparr>"

text \<open>Arithmetic of two columns of one table, and of a column and a number.\<close>

definition series_binop ::
  "(pyfloat \<Rightarrow> pyfloat \<Rightarrow> pyfloat) \<Rightarrow> cell list \<Rightarrow> cell list \<Rightarrow> error + cell list" where
  "series_binop f a b =
     (case numeric_values a of
        Inl e \<Rightarrow> Inl e
      | Inr xs \<Rightarrow>
          (case numeric_values b of
             Inl e \<Rightarrow> Inl e
           | Inr ys \<Rightarrow> Inr (map (\<lambda>(x, y). Num (f x y)) (zip xs ys))))"

definition series_scalar ::
  "(pyfloat \<Rightarrow> pyfloat \<Rightarrow> pyfloat) \<Rightarrow> cell list \<Rightarrow> pyfloat \<Rightarrow> error + cell list" where
  "series_scalar f a k =
     (case numeric_values a of Inl e \<Rightarrow> Inl e | Inr xs \<Rightarrow> Inr (map (\<lambda>x. Num (f x k)) xs))"

definition series_gt :: "cell list \<Rightarrow> pyfloat \<Rightarrow> error + bool list" where
  "series_gt a k =
     (case numeric_values a of Inl e \<Rightarrow> Inl e | Inr xs \<Rightarrow> Inr (map (\<lambda>x. fgt x k) xs))"

text \<open>
  \<^verbatim>\<open>reset_index()\<close> turns the index into the first column, under the index's name, and
  numbers the rows from 0; it raises ValueError when a column of that name is there
  already. Under a two-level header the new column's label is the name paired with the
  empty string. \<^verbatim>\<open>reset_index(drop=True)\<close> only renumbers.
\<close>

fun two_level :: "collabel \<Rightarrow> bool" where
  "two_level (MCol a b) = True"
| "two_level (Col a) = False"

definition index_label :: "dataframe \<Rightarrow> collabel" where
  "index_label df =
     (let name = (case index_name df of
                    Some n \<Rightarrow> n
                  | None \<Rightarrow> if Col ''index'' \<in> set (columns df) then Col ''level_0''
                            else Col ''index'')
      in case name of
           Col s \<Rightarrow> if list_ex two_level (columns df) then MCol s [] else Col s
         | MCol a b \<Rightarrow> MCol a b)"

definition reset_index :: "dataframe \<Rightarrow> error + dataframe" where
  "reset_index df =
     (let name = index_label df in
      if name \<in> set (columns df) then Inl ValueError
      else Inr \<lparr>columns = name # columns df, index_name = None,
                rows = zip (range_index (length (rows df)))
                           (map (\<lambda>(i, r). (name, i) # r) (rows df))\<rparr>)"

definition reset_index_drop :: "dataframe \<Rightarrow> dataframe" where
  "reset_index_drop df =
     df\<lparr>index_name := None,
        rows := zip (range_index (length (rows df))) (map snd (rows df))\<rparr>"

text \<open>
  \<^verbatim>\<open>df.sort_values(by=name, ascending=False)\<close> computes an indexer, the positions of the
  rows in their new order, and takes the rows at these positions. The indexer comes from
  the sort that \<^verbatim>\<open>kind\<close> names, which the source leaves at its default; it is a
  parameter here, \<open>sorter\<close>, from the keys to the positions.
\<close>

definition take_rows :: "nat list \<Rightarrow> dataframe \<Rightarrow> error + dataframe" where
  "take_rows idx df =
     (if list_all (\<lambda>i. i < length (rows df)) idx
      then Inr (df\<lparr>rows := map (\<lambda>i. rows df ! i) idx\<rparr>)
      else Inl IndexError)"

definition sort_values_desc ::
  "(pyfloat list \<Rightarrow> nat list) \<Rightarrow> dataframe \<Rightarrow> collabel \<Rightarrow> error + dataframe" where
  "sort_values_desc sorter df c =
     (case get_column df c of
        Inl e \<Rightarrow> Inl e
      | Inr cs \<Rightarrow>
          (case numeric_values cs of
             Inl e \<Rightarrow> Inl e
           | Inr ks \<Rightarrow> take_rows (sorter ks) df))"

text \<open>\<^verbatim>\<open>df.copy()\<close>: a new table with the same content.\<close>

definition df_copy :: "dataframe \<Rightarrow> dataframe" where
  "df_copy df = df"

section \<open>Data shaping\<close>

text \<open>
  \<^verbatim>\<open>
  def generate_contingency_table(df, column1, column2, threshold=0):
      return pd.crosstab(df[column1], df[column2] > threshold)
  \<close>
  The cross-tabulation is a parameter: no property here is about the counts.
\<close>

definition generate_contingency_table ::
  "(cell list \<Rightarrow> bool list \<Rightarrow> error + dataframe) \<Rightarrow> dataframe \<Rightarrow> string \<Rightarrow> string \<Rightarrow> pyfloat \<Rightarrow>
     error + dataframe" where
  "generate_contingency_table crosstab df column1 column2 threshold =
     (case get_column df (Col column1) of
        Inl e \<Rightarrow> Inl e
      | Inr c1 \<Rightarrow>
     (case get_column df (Col column2) of
        Inl e \<Rightarrow> Inl e
      | Inr c2 \<Rightarrow>
     (case series_gt c2 threshold of
        Inl e \<Rightarrow> Inl e
      | Inr flags \<Rightarrow> crosstab c1 flags)))"

text \<open>
  \<^verbatim>\<open>
  def segment_data(data, column, values_group_a, values_group_b):
      group_a = data[data[column].isin(values_group_a)]
      group_b = data[data[column].isin(values_group_b)]
      return group_a, group_b
  \<close>
\<close>

definition segment_data ::
  "dataframe \<Rightarrow> string \<Rightarrow> cell list \<Rightarrow> cell list \<Rightarrow> error + (dataframe \<times> dataframe)" where
  "segment_data data column values_group_a values_group_b =
     (case get_column data (Col column) of
        Inl e \<Rightarrow> Inl e
      | Inr vs \<Rightarrow>
          let group_a = select_rows (isin vs values_group_a) data;
              group_b = select_rows (isin vs values_group_b) data
          in Inr (group_a, group_b))"

text \<open>
  \<^verbatim>\<open>
  def compute_metric(data, column, condition, metric_col, operation='mean'):
      subset = data[data[column] == condition]
      if operation == 'mean':
          return subset[metric_col].mean()
      elif operation == 'sum':
          return subset[metric_col].sum()
  \<close>
  A Python function that falls off its end returns \<^verbatim>\<open>None\<close>: the result is an
  optional number.
\<close>

definition compute_metric ::
  "dataframe \<Rightarrow> string \<Rightarrow> cell \<Rightarrow> string \<Rightarrow> string \<Rightarrow> error + pyfloat option" where
  "compute_metric data column condition metric_col operation =
     (case get_column data (Col column) of
        Inl e \<Rightarrow> Inl e
      | Inr vs \<Rightarrow>
          let subset = select_rows (map (\<lambda>v. py_eq v condition) vs) data in
          if operation = ''mean'' then
            (case get_column subset (Col metric_col) of
               Inl e \<Rightarrow> Inl e
             | Inr ms \<Rightarrow> (case series_mean ms of Inl e \<Rightarrow> Inl e | Inr m \<Rightarrow> Inr (Some m)))
          else if operation = ''sum'' then
            (case get_column subset (Col metric_col) of
               Inl e \<Rightarrow> Inl e
             | Inr ms \<Rightarrow> (case series_sum ms of Inl e \<Rightarrow> Inl e | Inr s \<Rightarrow> Inr (Some s)))
          else Inr None)"

text \<open>
  \<^verbatim>\<open>
  def aggregate_by_group(data, group_column, metrics):
      data = data.copy()
      return data.groupby(group_column)[metrics].agg(["sum", "mean"]).reset_index()
  \<close>
  \<open>metrics\<close> is a list of column names. The result has the two-level header
  \<open>(m, sum), (m, mean)\<close> for each metric \<open>m\<close>, after the key's column. An empty or
  repeating list of metrics, or one that holds the group column, is not modelled.
\<close>

definition agg_sum_mean :: "string list \<Rightarrow> (cell \<times> row) list \<Rightarrow> error + row" where
  "agg_sum_mean metrics grp =
     (case sequence_err
             (map (\<lambda>m.
                case series_sum (column_of (Col m) grp) of
                  Inl e \<Rightarrow> Inl e
                | Inr s \<Rightarrow>
                    (case series_mean (column_of (Col m) grp) of
                       Inl e \<Rightarrow> Inl e
                     | Inr a \<Rightarrow> Inr [(MCol m ''sum'', Num s), (MCol m ''mean'', Num a)]))
              metrics) of
        Inl e \<Rightarrow> Inl e
      | Inr cells \<Rightarrow> Inr (concat cells))"

definition aggregate_by_group :: "dataframe \<Rightarrow> string \<Rightarrow> string list \<Rightarrow> error + dataframe" where
  "aggregate_by_group data group_column metrics =
     (let data = df_copy data in
      case groupby data (Col group_column) of
        Inl e \<Rightarrow> Inl e
      | Inr groups \<Rightarrow>
          (case find (\<lambda>m. Col m \<notin> set (columns data)) metrics of
             Some m \<Rightarrow> Inl (KeyError (Col m))
           | None \<Rightarrow>
               if metrics = [] \<or> group_column \<in> set metrics \<or> \<not> distinct metrics
               then Inl NotModelled
               else
                 (case sequence_err
                         (map (\<lambda>(k, grp).
                            case agg_sum_mean metrics grp of
                              Inl e \<Rightarrow> Inl e
                            | Inr r \<Rightarrow> Inr (k, r))
                          groups) of
                    Inl e \<Rightarrow> Inl e
                  | Inr rs \<Rightarrow>
                      reset_index
                        \<lparr>columns = concat (map (\<lambda>m. [MCol m ''sum'', MCol m ''mean'']) metrics),
                         index_name = Some (Col group_column),
                         rows = rs\<rparr>)))"

section \<open>Cost savings\<close>

text \<open>
  \<^verbatim>\<open>
  def calculate_cost_savings(data, group_col, cost_col, claim_col):
      group_data = data.groupby(group_col).agg(
          TotalCost=(cost_col, "sum"),
          TotalClaims=(claim_col, "sum"),
      )
      group_data["SavingsPotential"] = group_data["TotalCost"] - group_data["TotalClaims"]
      group_data["SavingsPercentage"] = (group_data["SavingsPotential"] / group_data["TotalCost"]) * 100
      return group_data.reset_index()
  \<close>
  The named aggregation gives a table indexed by the group keys, one column per name.
  Summing the group column itself is not modelled.
\<close>

definition agg_named_sum ::
  "dataframe \<Rightarrow> string \<Rightarrow> (string \<times> string) list \<Rightarrow> error + dataframe" where
  "agg_named_sum data group_col named =
     (case groupby data (Col group_col) of
        Inl e \<Rightarrow> Inl e
      | Inr groups \<Rightarrow>
          (case find (\<lambda>(out, src). Col src \<notin> set (columns data)) named of
             Some (out, src) \<Rightarrow> Inl (KeyError (Col src))
           | None \<Rightarrow>
               if list_ex (\<lambda>(out, src). src = group_col) named then Inl NotModelled
               else
                 (case sequence_err
                         (map (\<lambda>(k, grp).
                            case sequence_err
                                   (map (\<lambda>(out, src).
                                      case series_sum (column_of (Col src) grp) of
                                        Inl e \<Rightarrow> Inl e
                                      | Inr s \<Rightarrow> Inr (Col out, Num s))
                                    named) of
                              Inl e \<Rightarrow> Inl e
                            | Inr r \<Rightarrow> Inr (k, r))
                          groups) of
                    Inl e \<Rightarrow> Inl e
                  | Inr rs \<Rightarrow>
                      Inr \<lparr>columns = map (\<lambda>(out, src). Col out) named,
                           index_name = Some (Col group_col),
                           rows = rs\<rparr>)))"

definition calculate_cost_savings ::
  "dataframe \<Rightarrow> string \<Rightarrow> string \<Rightarrow> string \<Rightarrow> error + dataframe" where
  "calculate_cost_savings data group_col cost_col claim_col =
     (case agg_named_sum data group_col
             [(''TotalCost'', cost_col), (''TotalClaims'', claim_col)] of
        Inl e \<Rightarrow> Inl e
      | Inr group_data \<Rightarrow>
          (case get_column group_data (Col ''TotalCost'') of
             Inl e \<Rightarrow> Inl e
           | Inr cost \<Rightarrow>
          (case get_column group_data (Col ''TotalClaims'') of
             Inl e \<Rightarrow> Inl e
           | Inr claims \<Rightarrow>
          (case series_binop fsub cost claims of
             Inl e \<Rightarrow> Inl e
           | Inr potential \<Rightarrow>
          let group_data = set_column group_data (Col ''SavingsPotential'') potential in
          (case get_column group_data (Col ''SavingsPotential'') of
             Inl e \<Rightarrow> Inl e
           | Inr potential \<Rightarrow>
          (case get_column group_data (Col ''TotalCost'') of
             Inl e \<Rightarrow> Inl e
           | Inr cost \<Rightarrow>
          (case series_binop fdiv potential cost of
             Inl e \<Rightarrow> Inl e
           | Inr ratio \<Rightarrow>
          (case series_scalar fmul ratio (Fin 100) of
             Inl e \<Rightarrow> Inl e
           | Inr percentage \<Rightarrow>
          let group_data = set_column group_data (Col ''SavingsPercentage'') percentage in
          reset_index group_data))))))))"

text \<open>
  \<^verbatim>\<open>
  def rank_savings_opportunities(savings_summary, threshold=0):
      filtered = savings_summary[savings_summary["SavingsPercentage"] > threshold]
      return filtered.sort_values(by="SavingsPercentage", ascending=False).reset_index(drop=True)
  \<close>
\<close>

definition rank_savings_opportunities ::
  "(pyfloat list \<Rightarrow> nat list) \<Rightarrow> dataframe \<Rightarrow> pyfloat \<Rightarrow> error + dataframe" where
  "rank_savings_opportunities sorter savings_summary threshold =
     (case get_column savings_summary (Col ''SavingsPercentage'') of
        Inl e \<Rightarrow> Inl e
      | Inr pct \<Rightarrow>
          (case series_gt pct threshold of
             Inl e \<Rightarrow> Inl e
           | Inr keep \<Rightarrow>
               let filtered = select_rows keep savings_summary in
               (case sort_values_desc sorter filtered (Col ''SavingsPercentage'') of
                  Inl e \<Rightarrow> Inl e
                | Inr sorted_rows \<Rightarrow> Inr (reset_index_drop sorted_rows))))"

section \<open>Statistical tests\<close>

text \<open>The finite values of a sample.\<close>

definition finite_part :: "pyfloat list \<Rightarrow> real list" where
  "finite_part xs = concat (map (\<lambda>v. case v of Fin x \<Rightarrow> [x] | _ \<Rightarrow> []) xs)"

text \<open>
  Each runner calls one scipy routine and wraps its statistic and p-value in a dict with
  the flag \<^verbatim>\<open>p_value < 0.05\<close>. The statistics of the two-sample tests are modelled as
  scipy documents them; the tails of the null distributions, from which the p-values
  come, are parameters: \<open>t_sf x d\<close> is the survival function of Student's t
  distribution with \<open>d\<close> degrees of freedom at \<open>x\<close>, \<open>u_sf u m n zs\<close> the survival
  function of the Mann-Whitney statistic for samples of sizes \<open>m\<close> and \<open>n\<close> whose pooled
  sorted values are \<open>zs\<close>. The chi-squared and ANOVA routines are parameters as a whole.
  Samples that hold an infinity, samples without variance and, for the rank test, empty
  samples and missing values, are not modelled.
\<close>

record test_result =
  stat :: pyfloat
  p_value :: pyfloat
  significant :: bool

definition all_finite :: "pyfloat list \<Rightarrow> bool" where
  "all_finite xs = list_all (\<lambda>v. case v of Fin x \<Rightarrow> True | _ \<Rightarrow> False) xs"

definition sample_mean :: "real list \<Rightarrow> real" where
  "sample_mean xs = sum_list xs / real (length xs)"

definition sample_var :: "real list \<Rightarrow> real" where
  "sample_var xs = sum_list (map (\<lambda>x. (x - sample_mean xs)\<^sup>2) xs) / (real (length xs) - 1)"

text \<open>
  \<^verbatim>\<open>ttest_ind(a, b, equal_var=False, nan_policy="omit")\<close>: Welch's test on the values
  that are not missing. With fewer than two values in a sample the variance is undefined
  and statistic and p-value are NaN; nothing is raised.
\<close>

definition ttest_ind ::
  "(real \<Rightarrow> real \<Rightarrow> real) \<Rightarrow> cell list \<Rightarrow> cell list \<Rightarrow> error + (pyfloat \<times> pyfloat)" where
  "ttest_ind t_sf a b =
     (case numeric_values a of
        Inl e \<Rightarrow> Inl e
      | Inr xs \<Rightarrow>
     (case numeric_values b of
        Inl e \<Rightarrow> Inl e
      | Inr ys \<Rightarrow>
          if length (dropna xs) < 2 \<or> length (dropna ys) < 2 then Inr (NaN, NaN)
          else if \<not> all_finite (dropna xs) \<or> \<not> all_finite (dropna ys) then Inl NotModelled
          else
            let x = finite_part xs; y = finite_part ys;
                vn1 = sample_var x / real (length x);
                vn2 = sample_var y / real (length y)
            in if vn1 + vn2 = 0 then Inl NotModelled
               else
                 let df = (vn1 + vn2)\<^sup>2 /
                          (vn1\<^sup>2 / (real (length x) - 1) + vn2\<^sup>2 / (real (length y) - 1));
                     t = (sample_mean x - sample_mean y) / sqrt (vn1 + vn2)
                 in Inr (Fin t, Fin (2 * t_sf \<bar>t\<bar> df))))"

text \<open>
  \<^verbatim>\<open>mannwhitneyu(x, y, alternative='two-sided')\<close>, as scipy 1.7 and later document
  it: the statistic is the U of the first sample, the number of pairs in which its value
  is the greater one, a tie counting one half; the U of the second sample is the product
  of the sizes minus it. The two-sided p-value is twice the tail at the greater of the
  two, clipped to the unit interval.
\<close>

definition u_statistic :: "real list \<Rightarrow> real list \<Rightarrow> real" where
  "u_statistic xs ys =
     sum_list (map (\<lambda>x. sum_list (map (\<lambda>y. if y < x then 1 else if y = x then 1 / 2 else 0) ys)) xs)"

definition mannwhitneyu ::
  "(real \<Rightarrow> nat \<Rightarrow> nat \<Rightarrow> real list \<Rightarrow> real) \<Rightarrow> cell list \<Rightarrow> cell list \<Rightarrow>
     error + (pyfloat \<times> pyfloat)" where
  "mannwhitneyu u_sf a b =
     (case numeric_values a of
        Inl e \<Rightarrow> Inl e
      | Inr xs \<Rightarrow>
     (case numeric_values b of
        Inl e \<Rightarrow> Inl e
      | Inr ys \<Rightarrow>
          if xs = [] \<or> ys = [] \<or> \<not> all_finite xs \<or> \<not> all_finite ys then Inl NotModelled
          else
            let x = finite_part xs; y = finite_part ys;
                u1 = u_statistic x y;
                u2 = real (length x * length y) - u1;
                p = 2 * u_sf (max u1 u2) (length x) (length y) (sort (x @ y))
            in Inr (Fin u1, Fin (min 1 (max 0 p)))))"

text \<open>
  \<^verbatim>\<open>
  def perform_t_test(group_a, group_b, metric):
      stat, p_value = ttest_ind(group_a[metric], group_b[metric], equal_var=False, nan_policy="omit")
      return {"stat": stat, "p_value": p_value, "significant": p_value < 0.05}
  \<close>
\<close>

definition perform_t_test ::
  "(real \<Rightarrow> real \<Rightarrow> real) \<Rightarrow> dataframe \<Rightarrow> dataframe \<Rightarrow> string \<Rightarrow> error + test_result" where
  "perform_t_test t_sf group_a group_b metric =
     (case get_column group_a (Col metric) of
        Inl e \<Rightarrow> Inl e
      | Inr a \<Rightarrow>
     (case get_column group_b (Col metric) of
        Inl e \<Rightarrow> Inl e
      | Inr b \<Rightarrow>
     (case ttest_ind t_sf a b of
        Inl e \<Rightarrow> Inl e
      | Inr (s, p) \<Rightarrow> Inr \<lparr>stat = s, p_value = p, significant = flt p (Fin 0.05)\<rparr>)))"

text \<open>
  \<^verbatim>\<open>
  def perform_chi2_test(contingency_table):
      stat, p_value, _, _ = chi2_contingency(contingency_table)
      return {"stat": stat, "p_value": p_value, "significant": p_value < 0.05}
  \<close>
\<close>

definition perform_chi2_test ::
  "('t \<Rightarrow> error + (pyfloat \<times> pyfloat \<times> 'd \<times> 'x)) \<Rightarrow> 't \<Rightarrow> error + test_result" where
  "perform_chi2_test chi2_contingency contingency_table =
     (case chi2_contingency contingency_table of
        Inl e \<Rightarrow> Inl e
      | Inr (s, p, dof, expected) \<Rightarrow>
          Inr \<lparr>stat = s, p_value = p, significant = flt p (Fin 0.05)\<rparr>)"

text \<open>
  \<^verbatim>\<open>
  def perform_anova_test(*groups):
      stat, p_value = f_oneway(*groups)
      return {"stat": stat, "p_value": p_value, "significant": p_value < 0.05}
  \<close>
\<close>

definition perform_anova_test ::
  "('g list \<Rightarrow> error + (pyfloat \<times> pyfloat)) \<Rightarrow> 'g list \<Rightarrow> error + test_result" where
  "perform_anova_test f_oneway groups =
     (case f_oneway groups of
        Inl e \<Rightarrow> Inl e
      | Inr (s, p) \<Rightarrow> Inr \<lparr>stat = s, p_value = p, significant = flt p (Fin 0.05)\<rparr>)"

text \<open>
  \<^verbatim>\<open>
  def perform_mannwhitneyu_test(group_a, group_b, metric):
      stat, p_value = mannwhitneyu(group_a[metric], group_b[metric], alternative='two-sided')
      return {"stat": stat, "p_value": p_value, "significant": p_value < 0.05}
  \<close>
\<close>

definition perform_mannwhitneyu_test ::
  "(real \<Rightarrow> nat \<Rightarrow> nat \<Rightarrow> real list \<Rightarrow> real) \<Rightarrow> dataframe \<Rightarrow> dataframe \<Rightarrow> string \<Rightarrow>
     error + test_result" where
  "perform_mannwhitneyu_test u_sf group_a group_b metric =
     (case get_column group_a (Col metric) of
        Inl e \<Rightarrow> Inl e
      | Inr a \<Rightarrow>
     (case get_column group_b (Col metric) of
        Inl e \<Rightarrow> Inl e
      | Inr b \<Rightarrow>
     (case mannwhitneyu u_sf a b of
        Inl e \<Rightarrow> Inl e
      | Inr (s, p) \<Rightarrow> Inr \<lparr>stat = s, p_value = p, significant = flt p (Fin 0.05)\<rparr>)))"

section \<open>Tables as objects\<close>

text \<open>
  A DataFrame is an object: two names can refer to one table, and an assignment to a
  column changes the table for every name. The store is the list of the tables that
  exist, an address is a position in it. A new table is put at the end; nothing is ever
  removed. What pandas and scipy do to the store is taken from their documentation:
  indexing with flags, \<^verbatim>\<open>copy\<close>, \<^verbatim>\<open>groupby(...).agg\<close>, \<^verbatim>\<open>reset_index\<close>,
  \<^verbatim>\<open>sort_values\<close> and \<^verbatim>\<open>crosstab\<close> build a new table, \<^verbatim>\<open>df[name] = values\<close> writes
  into the table it is applied to, and the reductions and the tests only read.
\<close>

type_synonym addr = nat

type_synonym store = "dataframe list"

definition load :: "store \<Rightarrow> addr \<Rightarrow> dataframe option" where
  "load h a = (if a < length h then Some (h ! a) else None)"

definition alloc :: "dataframe \<Rightarrow> store \<Rightarrow> addr \<times> store" where
  "alloc df h = (length h, h @ [df])"

definition setitem :: "addr \<Rightarrow> collabel \<Rightarrow> cell list \<Rightarrow> store \<Rightarrow> store" where
  "setitem a c vs h = h[a := set_column (h ! a) c vs]"

text \<open>The tables of \<open>h\<close> are still there in \<open>h'\<close>, each with the content it had.\<close>

definition unchanged :: "store \<Rightarrow> store \<Rightarrow> bool" where
  "unchanged h h' = (take (length h) h' = h)"

definition segment_data_st ::
  "store \<Rightarrow> addr \<Rightarrow> string \<Rightarrow> cell list \<Rightarrow> cell list \<Rightarrow> (error + addr \<times> addr) \<times> store" where
  "segment_data_st h data column values_group_a values_group_b =
     (case load h data of
        None \<Rightarrow> (Inl NotModelled, h)
      | Some df \<Rightarrow>
     (case get_column df (Col column) of
        Inl e \<Rightarrow> (Inl e, h)
      | Inr vs \<Rightarrow>
          let (group_a, h1) = alloc (select_rows (isin vs values_group_a) df) h;
              (group_b, h2) = alloc (select_rows (isin vs values_group_b) df) h1
          in (Inr (group_a, group_b), h2)))"

text \<open>
  In \<open>aggregate_by_group\<close> the name \<open>data\<close> is bound anew to the copy; the grouping
  reads the copy.
\<close>

definition aggregate_by_group_st ::
  "store \<Rightarrow> addr \<Rightarrow> string \<Rightarrow> string list \<Rightarrow> (error + addr) \<times> store" where
  "aggregate_by_group_st h data group_column metrics =
     (case load h data of
        None \<Rightarrow> (Inl NotModelled, h)
      | Some df \<Rightarrow>
          let (data, h1) = alloc (df_copy df) h in
          (case aggregate_by_group (h1 ! data) group_column metrics of
             Inl e \<Rightarrow> (Inl e, h1)
           | Inr r \<Rightarrow> let (res, h2) = alloc r h1 in (Inr res, h2)))"

definition compute_metric_st ::
  "store \<Rightarrow> addr \<Rightarrow> string \<Rightarrow> cell \<Rightarrow> string \<Rightarrow> string \<Rightarrow> (error + pyfloat option) \<times> store" where
  "compute_metric_st h data column condition metric_col operation =
     (case load h data of
        None \<Rightarrow> (Inl NotModelled, h)
      | Some df \<Rightarrow>
     (case get_column df (Col column) of
        Inl e \<Rightarrow> (Inl e, h)
      | Inr vs \<Rightarrow>
          let (subset, h1) = alloc (select_rows (map (\<lambda>v. py_eq v condition) vs) df) h in
          if operation = ''mean'' then
            (case get_column (h1 ! subset) (Col metric_col) of
               Inl e \<Rightarrow> (Inl e, h1)
             | Inr ms \<Rightarrow>
                 (case series_mean ms of Inl e \<Rightarrow> (Inl e, h1) | Inr m \<Rightarrow> (Inr (Some m), h1)))
          else if operation = ''sum'' then
            (case get_column (h1 ! subset) (Col metric_col) of
               Inl e \<Rightarrow> (Inl e, h1)
             | Inr ms \<Rightarrow>
                 (case series_sum ms of Inl e \<Rightarrow> (Inl e, h1) | Inr s \<Rightarrow> (Inr (Some s), h1)))
          else (Inr None, h1)))"

text \<open>
  In \<open>calculate_cost_savings\<close> the two assignments to columns write into \<open>group_data\<close>,
  the table that the aggregation has just built.
\<close>

definition calculate_cost_savings_st ::
  "store \<Rightarrow> addr \<Rightarrow> string \<Rightarrow> string \<Rightarrow> string \<Rightarrow> (error + addr) \<times> store" where
  "calculate_cost_savings_st h data group_col cost_col claim_col =
     (case load h data of
        None \<Rightarrow> (Inl NotModelled, h)
      | Some df \<Rightarrow>
     (case agg_named_sum df group_col
             [(''TotalCost'', cost_col), (''TotalClaims'', claim_col)] of
        Inl e \<Rightarrow> (Inl e, h)
      | Inr t \<Rightarrow>
          let (group_data, h1) = alloc t h in
          (case get_column (h1 ! group_data) (Col ''TotalCost'') of
             Inl e \<Rightarrow> (Inl e, h1)
           | Inr cost \<Rightarrow>
          (case get_column (h1 ! group_data) (Col ''TotalClaims'') of
             Inl e \<Rightarrow> (Inl e, h1)
           | Inr claims \<Rightarrow>
          (case series_binop fsub cost claims of
             Inl e \<Rightarrow> (Inl e, h1)
           | Inr potential \<Rightarrow>
          let h2 = setitem group_data (Col ''SavingsPotential'') potential h1 in
          (case get_column (h2 ! group_data) (Col ''SavingsPotential'') of
             Inl e \<Rightarrow> (Inl e, h2)
           | Inr potential \<Rightarrow>
          (case get_column (h2 ! group_data) (Col ''TotalCost'') of
             Inl e \<Rightarrow> (Inl e, h2)
           | Inr cost \<Rightarrow>
          (case series_binop fdiv potential cost of
             Inl e \<Rightarrow> (Inl e, h2)
           | Inr ratio \<Rightarrow>
          (case series_scalar fmul ratio (Fin 100) of
             Inl e \<Rightarrow> (Inl e, h2)
           | Inr pct \<Rightarrow>
          let h3 = setitem group_data (Col ''SavingsPercentage'') pct h2 in
          (case reset_index (h3 ! group_data) of
             Inl e \<Rightarrow> (Inl e, h3)
           | Inr r \<Rightarrow> let (res, h4) = alloc r h3 in (Inr res, h4)))))))))))"

definition rank_savings_opportunities_st ::
  "(pyfloat list \<Rightarrow> nat list) \<Rightarrow> store \<Rightarrow> addr \<Rightarrow> pyfloat \<Rightarrow> (error + addr) \<times> store" where
  "rank_savings_opportunities_st sorter h savings_summary threshold =
     (case load h savings_summary of
        None \<Rightarrow> (Inl NotModelled, h)
      | Some df \<Rightarrow>
     (case get_column df (Col ''SavingsPercentage'') of
        Inl e \<Rightarrow> (Inl e, h)
      | Inr pct \<Rightarrow>
     (case series_gt pct threshold of
        Inl e \<Rightarrow> (Inl e, h)
      | Inr keep \<Rightarrow>
          let (filtered, h1) = alloc (select_rows keep df) h in
          (case sort_values_desc sorter (h1 ! filtered) (Col ''SavingsPercentage'') of
             Inl e \<Rightarrow> (Inl e, h1)
           | Inr s \<Rightarrow>
               let (sorted_rows, h2) = alloc s h1;
                   (res, h3) = alloc (reset_index_drop (h2 ! sorted_rows)) h2
               in (Inr res, h3)))))"

text \<open>The cross-tabulation puts its table into the store as a new one.\<close>

definition generate_contingency_table_st ::
  "(cell list \<Rightarrow> bool list \<Rightarrow> error + dataframe) \<Rightarrow> store \<Rightarrow> addr \<Rightarrow> string \<Rightarrow> string \<Rightarrow>
     pyfloat \<Rightarrow> (error + addr) \<times> store" where
  "generate_contingency_table_st crosstab h df column1 column2 threshold =
     (case load h df of
        None \<Rightarrow> (Inl NotModelled, h)
      | Some d \<Rightarrow>
          (case generate_contingency_table crosstab d column1 column2 threshold of
             Inl e \<Rightarrow> (Inl e, h)
           | Inr t \<Rightarrow> let (res, h1) = alloc t h in (Inr res, h1)))"

definition perform_t_test_st ::
  "(real \<Rightarrow> real \<Rightarrow> real) \<Rightarrow> store \<Rightarrow> addr \<Rightarrow> addr \<Rightarrow> string \<Rightarrow> (error + test_result) \<times> store" where
  "perform_t_test_st t_sf h group_a group_b metric =
     (case (load h group_a, load h group_b) of
        (Some a, Some b) \<Rightarrow> (perform_t_test t_sf a b metric, h)
      | _ \<Rightarrow> (Inl NotModelled, h))"

definition perform_mannwhitneyu_test_st ::
  "(real \<Rightarrow> nat \<Rightarrow> nat \<Rightarrow> real list \<Rightarrow> real) \<Rightarrow> store \<Rightarrow> addr \<Rightarrow> addr \<Rightarrow> string \<Rightarrow>
     (error + test_result) \<times> store" where
  "perform_mannwhitneyu_test_st u_sf h group_a group_b metric =
     (case (load h group_a, load h group_b) of
        (Some a, Some b) \<Rightarrow> (perform_mannwhitneyu_test u_sf a b metric, h)
      | _ \<Rightarrow> (Inl NotModelled, h))"

definition perform_chi2_test_st ::
  "(dataframe \<Rightarrow> error + (pyfloat \<times> pyfloat \<times> 'd \<times> 'x)) \<Rightarrow> store \<Rightarrow> addr \<Rightarrow>
     (error + test_result) \<times> store" where
  "perform_chi2_test_st chi2_contingency h contingency_table =
     (case load h contingency_table of
        None \<Rightarrow> (Inl NotModelled, h)
      | Some t \<Rightarrow> (perform_chi2_test chi2_contingency t, h))"

definition perform_anova_test_st ::
  "('g list \<Rightarrow> error + (pyfloat \<times> pyfloat)) \<Rightarrow> store \<Rightarrow> 'g list \<Rightarrow> (error + test_result) \<times> store" where
  "perform_anova_test_st f_oneway h groups = (perform_anova_test f_oneway groups, h)"

section \<open>The vocabulary of the properties\<close>

text \<open>
  Every property below is about a call whose column names are columns of the table it is
  given; a name that is not raises KeyError at the first lookup, in every function. The
  table of the running example holds three policies of two provinces.
\<close>

definition example_data :: dataframe where
  "example_data =
     \<lparr>columns = [Col ''Province'', Col ''TotalPremium'', Col ''TotalClaims''],
      index_name = None,
      rows =
        [(Num (Fin 0), [(Col ''Province'', Str ''A''), (Col ''TotalPremium'', Num (Fin 100)),
                        (Col ''TotalClaims'', Num (Fin 40))]),
         (Num (Fin 1), [(Col ''Province'', Str ''A''), (Col ''TotalPremium'', Num (Fin 50)),
                        (Col ''TotalClaims'', Num (Fin 30))]),
         (Num (Fin 2), [(Col ''Province'', Str ''B''), (Col ''TotalPremium'', Num (Fin 200)),
                        (Col ''TotalClaims'', Num (Fin 250))])]\<rparr>"

subsection \<open>segment_data\<close>

text \<open>The positions of the rows whose cell in a column is one of the given values.\<close>

definition matching :: "dataframe \<Rightarrow> collabel \<Rightarrow> cell list \<Rightarrow> nat list" where
  "matching df c vals =
     filter (\<lambda>i. cell_at (snd (rows df ! i)) c \<in> set vals) [0..<length (rows df)]"

subsection \<open>Sums and groups, as the spec words them\<close>

text \<open>
  A numeric column holds no string. The sum of a list of numbers, in closed form: missing
  values are skipped, an infinity wins over the finite values, and two opposite
  infinities give NaN. The values of a column within a group, and the distinct keys that
  are not missing, in ascending order.
\<close>

fun is_num :: "cell \<Rightarrow> bool" where
  "is_num (Num x) = True"
| "is_num (Str s) = False"

fun to_float :: "cell \<Rightarrow> pyfloat" where
  "to_float (Num x) = x"
| "to_float (Str s) = NaN"

definition numeric_column :: "dataframe \<Rightarrow> collabel \<Rightarrow> bool" where
  "numeric_column df c = list_all (\<lambda>(i, r). is_num (cell_at r c)) (rows df)"




subsection \<open>calculate_cost_savings\<close>





subsection \<open>aggregate_by_group\<close>





subsection \<open>rank_savings_opportunities\<close>

text \<open>
  What every sort behind \<open>sort_values(ascending=False)\<close> does on keys without NaN: its
  indexer is a permutation of the positions, and the keys do not increase along it. The
  order it gives to equal keys is not part of this. \<open>stable_sorter\<close> is the indexer
  of a stable sort (reverse, sort ascending, reverse), one sorter among those that sort
  descending. \<open>above\<close> is the rows whose percentage is greater than the threshold.
\<close>

definition sorts_descending :: "(pyfloat list \<Rightarrow> nat list) \<Rightarrow> bool" where
  "sorts_descending sorter \<longleftrightarrow>
     (\<forall>ks. NaN \<notin> set ks \<longrightarrow>
        mset (sorter ks) = mset [0..<length ks] \<and>
        sorted_wrt (\<lambda>i j. fge (ks ! i) (ks ! j)) (sorter ks))"

definition stable_sorter :: "pyfloat list \<Rightarrow> nat list" where
  "stable_sorter ks = rev (sort_key (\<lambda>i. Num (ks ! i)) (rev [0..<length ks]))"

definition percentage_of :: "row \<Rightarrow> pyfloat" where
  "percentage_of r = to_float (cell_at r (Col ''SavingsPercentage''))"

definition above :: "pyfloat \<Rightarrow> dataframe \<Rightarrow> (cell \<times> row) list" where
  "above threshold df = filter (\<lambda>(i, r). fgt (percentage_of r) threshold) (rows df)"

text \<open>A summary with a tie, a negative percentage and a missing one.\<close>

definition tied_summary :: dataframe where
  "tied_summary =
     \<lparr>columns = [Col ''Province'', Col ''SavingsPercentage''],
      index_name = None,
      rows =
        [(Num (Fin 0), [(Col ''Province'', Str ''A''), (Col ''SavingsPercentage'', Num (Fin 10))]),
         (Num (Fin 1), [(Col ''Province'', Str ''B''), (Col ''SavingsPercentage'', Num (Fin (- 25)))]),
         (Num (Fin 2), [(Col ''Province'', Str ''C''), (Col ''SavingsPercentage'', Num (Fin 50))]),
         (Num (Fin 3), [(Col ''Province'', Str ''D''), (Col ''SavingsPercentage'', Num (Fin 10))]),
         (Num (Fin 4), [(Col ''Province'', Str ''E''), (Col ''SavingsPercentage'', Num NaN)])]\<rparr>"

subsection \<open>The test runners\<close>







section \<open>Properties\<close>

subsection \<open>segment_data\<close>

lemma select_rows_filter:
  "map snd (filter fst (zip (map P xs) xs)) = filter P xs"
  by (induction xs) auto

lemma filter_positions:
  "filter P xs = map (\<lambda>i. xs ! i) (filter (\<lambda>i. P (xs ! i)) [0..<length xs])"
proof -
  have "filter P xs = filter P (map (\<lambda>i. xs ! i) [0..<length xs])"
    by (simp add: map_nth)
  also have "\<dots> = map (\<lambda>i. xs ! i) (filter (\<lambda>i. P (xs ! i)) [0..<length xs])"
    by (simp add: filter_map comp_def)
  finally show ?thesis .
qed

lemma rows_select_isin:
  assumes "c \<in> set (columns df)"
  shows "rows (select_rows (isin (map (\<lambda>(i, r). cell_at r c) (rows df)) vals) df) =
         map (\<lambda>i. rows df ! i) (matching df c vals)"
proof -
  have "isin (map (\<lambda>(i, r). cell_at r c) (rows df)) vals =
        map (\<lambda>p. cell_at (snd p) c \<in> set vals) (rows df)"
    by (simp add: isin_def case_prod_unfold)
  then have "rows (select_rows (isin (map (\<lambda>(i, r). cell_at r c) (rows df)) vals) df) =
        filter (\<lambda>p. cell_at (snd p) c \<in> set vals) (rows df)"
    by (simp add: select_rows_def select_rows_filter)
  also have "\<dots> = map (\<lambda>i. rows df ! i) (matching df c vals)"
    unfolding matching_def by (rule filter_positions)
  finally show ?thesis .
qed

text \<open>
  C6: for disjoint value sets, \<open>segment_data\<close> returns two tables of the input's rows,
  taken at two sets of positions that share no position and that together are exactly
  the positions of the rows whose value in the column is in either set.
\<close>

theorem segment_data_partition:
  assumes "Col column \<in> set (columns data)"
    and "set values_group_a \<inter> set values_group_b = {}"
  shows "\<exists>group_a group_b.
     segment_data data column values_group_a values_group_b = Inr (group_a, group_b) \<and>
     columns group_a = columns data \<and> columns group_b = columns data \<and>
     rows group_a = map (\<lambda>i. rows data ! i) (matching data (Col column) values_group_a) \<and>
     rows group_b = map (\<lambda>i. rows data ! i) (matching data (Col column) values_group_b) \<and>
     distinct (matching data (Col column) values_group_a) \<and>
     distinct (matching data (Col column) values_group_b) \<and>
     set (matching data (Col column) values_group_a) \<inter>
       set (matching data (Col column) values_group_b) = {} \<and>
     set (matching data (Col column) values_group_a) \<union>
       set (matching data (Col column) values_group_b) =
       {i. i < length (rows data) \<and>
           cell_at (snd (rows data ! i)) (Col column) \<in> set values_group_a \<union> set values_group_b}"
proof -
  let ?A = "matching data (Col column) values_group_a"
  let ?B = "matching data (Col column) values_group_b"
  have seg: "segment_data data column values_group_a values_group_b =
      Inr (select_rows (isin (map (\<lambda>(i, r). cell_at r (Col column)) (rows data)) values_group_a) data,
           select_rows (isin (map (\<lambda>(i, r). cell_at r (Col column)) (rows data)) values_group_b) data)"
    using assms(1) by (simp add: segment_data_def get_column_def)
  have disj: "set ?A \<inter> set ?B = {}"
    using assms(2) by (auto simp: matching_def)
  have un: "set ?A \<union> set ?B =
       {i. i < length (rows data) \<and>
           cell_at (snd (rows data ! i)) (Col column) \<in> set values_group_a \<union> set values_group_b}"
    by (auto simp: matching_def)
  have dist: "distinct ?A" "distinct ?B"
    by (simp_all add: matching_def)
  show ?thesis
    unfolding seg using disj un dist rows_select_isin[OF assms(1)]
    by (simp add: select_rows_def)
qed

theorem segment_data_partition_witness:
  "\<exists>group_a group_b.
     segment_data example_data ''Province'' [Str ''A''] [Str ''B''] = Inr (group_a, group_b) \<and>
     rows group_a = [rows example_data ! 0, rows example_data ! 1] \<and>
     rows group_b = [rows example_data ! 2]"
proof -
  have c: "Col ''Province'' \<in> set (columns example_data)"
    by (simp add: example_data_def)
  have d: "set [Str ''A''] \<inter> set [Str ''B''] = {}"
    by simp
  have ma: "matching example_data (Col ''Province'') [Str ''A''] = [0, 1]"
    by (simp add: matching_def example_data_def cell_at_def upt_rec)
  have mb: "matching example_data (Col ''Province'') [Str ''B''] = [2]"
    by (simp add: matching_def example_data_def cell_at_def upt_rec)
  from segment_data_partition[OF c d] show ?thesis
    unfolding ma mb by auto
qed

subsection \<open>compute_metric\<close>

text \<open>
  C8: with an operation that is neither \<open>mean\<close> nor \<open>sum\<close>, \<open>compute_metric\<close>
  returns \<open>None\<close> and raises nothing; it does not even look the metric column up.
\<close>

theorem compute_metric_unknown_operation:
  assumes "Col column \<in> set (columns data)"
    and "operation \<noteq> ''mean''" and "operation \<noteq> ''sum''"
  shows "compute_metric data column condition metric_col operation = Inr None"
  using assms by (simp add: compute_metric_def get_column_def Let_def)

theorem compute_metric_unknown_operation_witness:
  "compute_metric example_data ''Province'' (Str ''A'') ''NoSuchColumn'' ''median'' = Inr None"
proof -
  have c: "Col ''Province'' \<in> set (columns example_data)"
    by (simp add: example_data_def)
  show ?thesis
    by (rule compute_metric_unknown_operation[OF c]) simp_all
qed

lemma select_rows_none:
  assumes "\<forall>p \<in> set xs. \<not> P p"
  shows "map snd (filter fst (zip (map P xs) xs)) = []"
  using assms by (simp add: select_rows_filter)



subsection \<open>Sums and groups, as the spec words them\<close>


lemma fadd_commute: "fadd a b = fadd b a"
  by (cases a; cases b) auto






lemma numeric_values_nums:
  "list_all is_num cs \<Longrightarrow> numeric_values cs = Inr (map to_float cs)"
proof (induction cs)
  case Nil
  show ?case by simp
next
  case (Cons c cs)
  then show ?case by (cases c) auto
qed






subsection \<open>calculate_cost_savings\<close>









subsection \<open>aggregate_by_group\<close>









subsection \<open>rank_savings_opportunities\<close>

lemma fge_cell_le: "a \<noteq> NaN \<Longrightarrow> b \<noteq> NaN \<Longrightarrow> fge a b \<longleftrightarrow> Num b \<le> Num a"
  by (cases a; cases b) (auto simp: fge_def less_eq_cell_def)

lemma stable_sorter_sorts: "sorts_descending stable_sorter"
  unfolding sorts_descending_def
proof (intro allI impI conjI)
  fix ks :: "pyfloat list"
  assume nan: "NaN \<notin> set ks"
  let ?f = "\<lambda>i. Num (ks ! i)"
  let ?ys = "sort_key ?f (rev [0..<length ks])"
  show "mset (stable_sorter ks) = mset [0..<length ks]"
    by (simp add: stable_sorter_def)
  have "sorted (map ?f ?ys)"
    by (rule sorted_sort_key)
  then have "sorted_wrt (\<lambda>i j. ?f i \<le> ?f j) ?ys"
    by (simp add: sorted_wrt_map)
  then have "sorted_wrt (\<lambda>i j. ?f j \<le> ?f i) (rev ?ys)"
    by (simp add: sorted_wrt_rev)
  moreover have "\<And>i j. i \<in> set (rev ?ys) \<Longrightarrow> j \<in> set (rev ?ys) \<Longrightarrow> ?f j \<le> ?f i \<Longrightarrow>
      fge (ks ! i) (ks ! j)"
  proof -
    fix i j
    assume "i \<in> set (rev ?ys)" and "j \<in> set (rev ?ys)" and le: "?f j \<le> ?f i"
    then have "i < length ks" and "j < length ks"
      by simp_all
    then have "ks ! i \<noteq> NaN" and "ks ! j \<noteq> NaN"
      using nan by (metis nth_mem)+
    then show "fge (ks ! i) (ks ! j)"
      using le by (simp add: fge_cell_le)
  qed
  ultimately show "sorted_wrt (\<lambda>i j. fge (ks ! i) (ks ! j)) (stable_sorter ks)"
    unfolding stable_sorter_def by (rule sorted_wrt_mono_rel[rotated])
qed

lemma fgt_not_NaN: "fgt x t \<Longrightarrow> x \<noteq> NaN"
  by (cases x) auto

lemma mset_take_positions:
  assumes "mset idx = mset [0..<length xs]"
  shows "mset (map (\<lambda>i. xs ! i) idx) = mset xs"
proof -
  have "mset (map (\<lambda>i. xs ! i) idx) = image_mset (\<lambda>i. xs ! i) (mset idx)"
    by simp
  also have "\<dots> = image_mset (\<lambda>i. xs ! i) (mset [0..<length xs])"
    by (simp only: assms)
  also have "\<dots> = mset (map (\<lambda>i. xs ! i) [0..<length xs])"
    by simp
  also have "\<dots> = mset xs"
    by (simp only: map_nth)
  finally show ?thesis .
qed

lemma rank_rows:
  assumes srt: "sorts_descending sorter"
    and col: "Col ''SavingsPercentage'' \<in> set (columns s)"
    and num: "numeric_column s (Col ''SavingsPercentage'')"
  shows "\<exists>idx. rank_savings_opportunities sorter s t =
           Inr \<lparr>columns = columns s, index_name = None,
                rows = zip (range_index (length (above t s)))
                           (map (\<lambda>i. snd (above t s ! i)) idx)\<rparr> \<and>
         mset idx = mset [0..<length (above t s)] \<and>
         sorted_wrt (\<lambda>i j. fge (percentage_of (snd (above t s ! i)))
                               (percentage_of (snd (above t s ! j)))) idx"
proof -
  let ?c = "Col ''SavingsPercentage''"
  let ?kept = "above t s"
  let ?ks = "map (\<lambda>p. percentage_of (snd p)) ?kept"
  let ?idx = "sorter ?ks"
  have cells: "list_all is_num (map (\<lambda>p. cell_at (snd p) ?c) (rows s))"
    using num by (simp add: numeric_column_def list_all_iff case_prod_unfold)
  have keep: "series_gt (map (\<lambda>p. cell_at (snd p) ?c) (rows s)) t =
        Inr (map (\<lambda>p. fgt (percentage_of (snd p)) t) (rows s))"
    by (simp add: series_gt_def numeric_values_nums[OF cells] percentage_of_def comp_def)
  have filtered: "select_rows (map (\<lambda>p. fgt (percentage_of (snd p)) t) (rows s)) s =
        s\<lparr>rows := ?kept\<rparr>"
    by (simp add: select_rows_def select_rows_filter above_def case_prod_unfold)
  have kcells: "list_all is_num (map (\<lambda>p. cell_at (snd p) ?c) ?kept)"
    using num by (auto simp: numeric_column_def list_all_iff above_def)
  have ks: "numeric_values (map (\<lambda>p. cell_at (snd p) ?c) ?kept) = Inr ?ks"
    by (simp add: numeric_values_nums[OF kcells] percentage_of_def comp_def)
  have nan: "NaN \<notin> set ?ks"
    by (auto simp: above_def dest: fgt_not_NaN)
  have perm: "mset ?idx = mset [0..<length ?kept]"
    and sorted: "sorted_wrt (\<lambda>i j. fge (?ks ! i) (?ks ! j)) ?idx"
    using srt nan unfolding sorts_descending_def by (metis length_map)+
  have seteq: "set ?idx = {0..<length ?kept}"
    using perm by (metis atLeastLessThan_upt set_mset_mset)
  have len: "length ?idx = length ?kept"
    using perm by (metis length_upt minus_nat.diff_0 size_mset)
  have inrange: "list_all (\<lambda>i. i < length ?kept) ?idx"
    using seteq by (simp add: list_all_iff)
  have sorted': "sorted_wrt (\<lambda>i j. fge (percentage_of (snd (?kept ! i)))
                               (percentage_of (snd (?kept ! j)))) ?idx"
    using sorted
  proof (rule sorted_wrt_mono_rel[rotated])
    fix i j
    assume "i \<in> set ?idx" and "j \<in> set ?idx" and "fge (?ks ! i) (?ks ! j)"
    then show "fge (percentage_of (snd (?kept ! i))) (percentage_of (snd (?kept ! j)))"
      using seteq by simp
  qed
  have "rank_savings_opportunities sorter s t =
           Inr \<lparr>columns = columns s, index_name = None,
                rows = zip (range_index (length ?kept)) (map (\<lambda>i. snd (?kept ! i)) ?idx)\<rparr>"
    using col inrange
    by (simp add: rank_savings_opportunities_def get_column_def case_prod_unfold keep filtered
        sort_values_desc_def ks take_rows_def reset_index_drop_def len comp_def)
  then show ?thesis
    using perm sorted' by blast
qed

lemma cell_at_put: "cell_at (put c v r) c = v"
  by (induction r) (auto simp: cell_at_def)

lemma series_scalar_nums: "series_scalar f a k = Inr vs \<Longrightarrow> list_all is_num vs"
  by (auto simp: series_scalar_def list_all_iff split: sum.splits)

lemma set_column_numeric:
  assumes "list_all is_num vs"
  shows "c \<in> set (columns (set_column df c vs)) \<and> numeric_column (set_column df c vs) c"
proof -
  have "\<And>p. p \<in> set (zip (rows df) vs) \<Longrightarrow> is_num (snd p)"
    using assms by (auto simp: list_all_iff dest: set_zip_rightD)
  then show ?thesis
    by (auto simp: set_column_def numeric_column_def list_all_iff cell_at_put)
qed

lemma reset_index_numeric:
  assumes "reset_index df = Inr s" and "c \<in> set (columns df)" and "numeric_column df c"
  shows "c \<in> set (columns s) \<and> numeric_column s c"
proof -
  have ne: "index_label df \<noteq> c" and s: "s = \<lparr>columns = index_label df # columns df, index_name = None,
                rows = zip (range_index (length (rows df)))
                           (map (\<lambda>(i, r). (index_label df, i) # r) (rows df))\<rparr>"
    using assms(1,2) by (auto simp: reset_index_def Let_def split: if_splits)
  have "\<And>p. p \<in> set (rows s) \<Longrightarrow> is_num (cell_at (snd p) c)"
  proof -
    fix p
    assume "p \<in> set (rows s)"
    then have "p \<in> set (zip (range_index (length (rows df)))
                           (map (\<lambda>(i, r). (index_label df, i) # r) (rows df)))"
      by (simp add: s)
    then have "snd p \<in> set (map (\<lambda>(i, r). (index_label df, i) # r) (rows df))"
      by (metis prod.collapse set_zip_rightD)
    then obtain i r where "(i, r) \<in> set (rows df)" and "snd p = (index_label df, i) # r"
      by auto
    then show "is_num (cell_at (snd p) c)"
      using assms(3) ne by (auto simp: numeric_column_def list_all_iff cell_at_def)
  qed
  then show ?thesis
    using assms(2) by (auto simp: s numeric_column_def list_all_iff)
qed

lemma calculate_cost_savings_percentage:
  assumes "calculate_cost_savings data group_col cost_col claim_col = Inr s"
  shows "Col ''SavingsPercentage'' \<in> set (columns s) \<and>
         numeric_column s (Col ''SavingsPercentage'')"
proof -
  from assms obtain gd pct where
    pct: "list_all is_num pct" and
    r: "reset_index (set_column gd (Col ''SavingsPercentage'') pct) = Inr s"
    unfolding calculate_cost_savings_def Let_def
    by (auto split: sum.splits dest: series_scalar_nums)
  from set_column_numeric[OF pct] reset_index_numeric[OF r] show ?thesis
    by blast
qed

text \<open>
  C3: on a summary whose \<open>SavingsPercentage\<close> column is there and numeric,
  \<open>rank_savings_opportunities\<close> returns exactly the rows whose percentage is strictly
  greater than the threshold, each once, in non-increasing order of the percentage, and
  numbered from 0 without a gap. After \<open>calculate_cost_savings\<close>, with threshold 0,
  every returned row has a percentage greater than 0 and the order is non-increasing.
\<close>

theorem rank_savings_opportunities_sorted:
  assumes "sorts_descending sorter"
  shows "(Col ''SavingsPercentage'' \<in> set (columns s) \<and>
          numeric_column s (Col ''SavingsPercentage'') \<longrightarrow>
          (\<exists>out. rank_savings_opportunities sorter s t = Inr out \<and>
             columns out = columns s \<and>
             mset (map snd (rows out)) = mset (map snd (above t s)) \<and>
             sorted_wrt (\<lambda>r r'. fge (percentage_of r) (percentage_of r')) (map snd (rows out)) \<and>
             map fst (rows out) = range_index (length (rows out)))) \<and>
         (calculate_cost_savings data group_col cost_col claim_col = Inr s' \<longrightarrow>
          (\<exists>out. rank_savings_opportunities sorter s' (Fin 0) = Inr out \<and>
             (\<forall>(i, r) \<in> set (rows out). fgt (percentage_of r) (Fin 0)) \<and>
             sorted_wrt (\<lambda>r r'. fge (percentage_of r) (percentage_of r')) (map snd (rows out))))"
proof -
  have main: "\<exists>out. rank_savings_opportunities sorter s t = Inr out \<and>
             columns out = columns s \<and>
             mset (map snd (rows out)) = mset (map snd (above t s)) \<and>
             sorted_wrt (\<lambda>r r'. fge (percentage_of r) (percentage_of r')) (map snd (rows out)) \<and>
             map fst (rows out) = range_index (length (rows out))"
    if col: "Col ''SavingsPercentage'' \<in> set (columns s)"
      and num: "numeric_column s (Col ''SavingsPercentage'')" for s t
  proof -
    from rank_rows[OF assms col num, of t] obtain idx where
      out: "rank_savings_opportunities sorter s t =
           Inr \<lparr>columns = columns s, index_name = None,
                rows = zip (range_index (length (above t s)))
                           (map (\<lambda>i. snd (above t s ! i)) idx)\<rparr>"
      and perm: "mset idx = mset [0..<length (above t s)]"
      and sorted: "sorted_wrt (\<lambda>i j. fge (percentage_of (snd (above t s ! i)))
                               (percentage_of (snd (above t s ! j)))) idx"
      by blast
    have len: "length idx = length (above t s)"
      using perm by (metis length_upt minus_nat.diff_0 size_mset)
    have snd_rows: "map snd (zip (range_index (length (above t s)))
                           (map (\<lambda>i. snd (above t s ! i)) idx)) =
                    map (\<lambda>i. snd (above t s ! i)) idx"
      by (simp add: len range_index_def)
    have fst_rows: "map fst (zip (range_index (length (above t s)))
                           (map (\<lambda>i. snd (above t s ! i)) idx)) =
                    range_index (length (above t s))"
      by (simp add: len range_index_def)
    have "mset (map (\<lambda>i. snd (above t s ! i)) idx) =
          image_mset snd (mset (map (\<lambda>i. above t s ! i) idx))"
      by (simp add: multiset.map_comp comp_def)
    also have "\<dots> = image_mset snd (mset (above t s))"
      by (simp only: mset_take_positions[OF perm])
    finally have ms: "mset (map (\<lambda>i. snd (above t s ! i)) idx) = mset (map snd (above t s))"
      by simp
    have so: "sorted_wrt (\<lambda>r r'. fge (percentage_of r) (percentage_of r'))
                (map (\<lambda>i. snd (above t s ! i)) idx)"
      using sorted by (simp add: sorted_wrt_map)
    let ?out = "\<lparr>columns = columns s, index_name = None,
                rows = zip (range_index (length (above t s)))
                           (map (\<lambda>i. snd (above t s ! i)) idx)\<rparr>"
    have r: "rows ?out = zip (range_index (length (above t s)))
                           (map (\<lambda>i. snd (above t s ! i)) idx)"
      by simp
    have n: "length (rows ?out) = length (above t s)"
      by (simp add: len range_index_def)
    show ?thesis
    proof (intro exI conjI)
      show "rank_savings_opportunities sorter s t = Inr ?out"
        by (rule out)
      show "columns ?out = columns s"
        by simp
      show "mset (map snd (rows ?out)) = mset (map snd (above t s))"
        unfolding r snd_rows by (rule ms)
      show "sorted_wrt (\<lambda>r r'. fge (percentage_of r) (percentage_of r')) (map snd (rows ?out))"
        unfolding r snd_rows by (rule so)
      show "map fst (rows ?out) = range_index (length (rows ?out))"
        unfolding n unfolding r fst_rows by (rule refl)
    qed
  qed
  have comp: "\<exists>out. rank_savings_opportunities sorter s' (Fin 0) = Inr out \<and>
             (\<forall>(i, r) \<in> set (rows out). fgt (percentage_of r) (Fin 0)) \<and>
             sorted_wrt (\<lambda>r r'. fge (percentage_of r) (percentage_of r')) (map snd (rows out))"
    if c: "calculate_cost_savings data group_col cost_col claim_col = Inr s'"
  proof -
    from calculate_cost_savings_percentage[OF c]
    have col: "Col ''SavingsPercentage'' \<in> set (columns s')"
      and num: "numeric_column s' (Col ''SavingsPercentage'')"
      by simp_all
    from main[OF col num, of "Fin 0"] obtain out where
      out: "rank_savings_opportunities sorter s' (Fin 0) = Inr out"
      and ms: "mset (map snd (rows out)) = mset (map snd (above (Fin 0) s'))"
      and so: "sorted_wrt (\<lambda>r r'. fge (percentage_of r) (percentage_of r')) (map snd (rows out))"
      by blast
    have "set (map snd (rows out)) = set (map snd (above (Fin 0) s'))"
      using ms by (rule mset_eq_setD)
    then have "\<forall>r \<in> set (map snd (rows out)). fgt (percentage_of r) (Fin 0)"
      by (auto simp: above_def)
    then have "\<forall>(i, r) \<in> set (rows out). fgt (percentage_of r) (Fin 0)"
      by auto
    then show ?thesis
      using out so by blast
  qed
  show ?thesis
    using main comp by blast
qed

theorem rank_savings_opportunities_sorted_witness:
  "(\<exists>out. rank_savings_opportunities stable_sorter tied_summary (Fin 0) = Inr out \<and>
      columns out = columns tied_summary \<and>
      mset (map snd (rows out)) = mset (map snd (above (Fin 0) tied_summary)) \<and>
      sorted_wrt (\<lambda>r r'. fge (percentage_of r) (percentage_of r')) (map snd (rows out)) \<and>
      map fst (rows out) = range_index (length (rows out))) \<and>
   rank_savings_opportunities stable_sorter tied_summary (Fin 0) =
     Inr \<lparr>columns = [Col ''Province'', Col ''SavingsPercentage''],
          index_name = None,
          rows =
            [(Num (Fin 0), [(Col ''Province'', Str ''C''), (Col ''SavingsPercentage'', Num (Fin 50))]),
             (Num (Fin 1), [(Col ''Province'', Str ''A''), (Col ''SavingsPercentage'', Num (Fin 10))]),
             (Num (Fin 2), [(Col ''Province'', Str ''D''), (Col ''SavingsPercentage'', Num (Fin 10))])]\<rparr>"
proof -
  have h: "Col ''SavingsPercentage'' \<in> set (columns tied_summary) \<and>
          numeric_column tied_summary (Col ''SavingsPercentage'')"
    by (simp add: tied_summary_def numeric_column_def cell_at_def)
  have e: "rank_savings_opportunities stable_sorter tied_summary (Fin 0) =
     Inr \<lparr>columns = [Col ''Province'', Col ''SavingsPercentage''],
          index_name = None,
          rows =
            [(Num (Fin 0), [(Col ''Province'', Str ''C''), (Col ''SavingsPercentage'', Num (Fin 50))]),
             (Num (Fin 1), [(Col ''Province'', Str ''A''), (Col ''SavingsPercentage'', Num (Fin 10))]),
             (Num (Fin 2), [(Col ''Province'', Str ''D''), (Col ''SavingsPercentage'', Num (Fin 10))])]\<rparr>"
    by (simp add: rank_savings_opportunities_def get_column_def tied_summary_def cell_at_def
        series_gt_def select_rows_def sort_values_desc_def stable_sorter_def take_rows_def
        reset_index_drop_def range_index_def less_eq_cell_def upt_rec)
  show ?thesis
    using rank_savings_opportunities_sorted[OF stable_sorter_sorts, THEN conjunct1, THEN mp, OF h] e
    by (intro conjI)
qed

subsection \<open>The test runners\<close>




















subsection \<open>The caller's tables\<close>

lemma unchanged_refl: "unchanged h h"
  by (simp add: unchanged_def)

lemma unchanged_alloc: "unchanged h h1 \<Longrightarrow> unchanged h (snd (alloc df h1))"
  by (simp add: unchanged_def alloc_def) (metis length_take min.absorb4 nat_le_linear
      take_all take_append append_Nil2 diff_is_0_eq take_0)

lemma unchanged_length: "unchanged h h1 \<Longrightarrow> length h \<le> length h1"
  by (metis unchanged_def length_take min.cobounded1)

lemma unchanged_setitem:
  "unchanged h h1 \<Longrightarrow> length h \<le> a \<Longrightarrow> unchanged h (setitem a c vs h1)"
  by (simp add: unchanged_def setitem_def)

lemma unchanged_nth: "unchanged h h1 \<Longrightarrow> b < length h \<Longrightarrow> h1 ! b = h ! b"
  by (metis unchanged_def nth_take)

lemma segment_data_st_unchanged:
  "unchanged h (snd (segment_data_st h data column values_group_a values_group_b))"
  by (simp add: segment_data_st_def alloc_def unchanged_def Let_def
      split: option.splits sum.splits)

lemma aggregate_by_group_st_unchanged:
  "unchanged h (snd (aggregate_by_group_st h data group_column metrics))"
  by (simp add: aggregate_by_group_st_def alloc_def unchanged_def Let_def
      split: option.splits sum.splits)

lemma compute_metric_st_unchanged:
  "unchanged h (snd (compute_metric_st h data column condition metric_col operation))"
  by (simp add: compute_metric_st_def alloc_def unchanged_def Let_def
      split: option.splits sum.splits)

lemma calculate_cost_savings_st_unchanged:
  "unchanged h (snd (calculate_cost_savings_st h data group_col cost_col claim_col))"
  by (simp add: calculate_cost_savings_st_def alloc_def setitem_def unchanged_def Let_def
      split: option.splits sum.splits)

lemma rank_savings_opportunities_st_unchanged:
  "unchanged h (snd (rank_savings_opportunities_st sorter h savings_summary threshold))"
  by (simp add: rank_savings_opportunities_st_def alloc_def unchanged_def Let_def
      split: option.splits sum.splits)

lemma generate_contingency_table_st_unchanged:
  "unchanged h (snd (generate_contingency_table_st crosstab h df column1 column2 threshold))"
  by (simp add: generate_contingency_table_st_def alloc_def unchanged_def Let_def
      split: option.splits sum.splits)

lemma runners_unchanged:
  "unchanged h (snd (perform_t_test_st t_sf h group_a group_b metric))"
  "unchanged h (snd (perform_mannwhitneyu_test_st u_sf h group_a group_b metric))"
  "unchanged h (snd (perform_chi2_test_st chi2_contingency h contingency_table))"
  "unchanged h (snd (perform_anova_test_st f_oneway h groups))"
  by (simp_all add: perform_t_test_st_def perform_mannwhitneyu_test_st_def
      perform_chi2_test_st_def perform_anova_test_st_def unchanged_def
      split: option.splits)

lemma aggregate_by_group_st_copy:
  assumes "data < length h"
  shows "length h < length (snd (aggregate_by_group_st h data group_column metrics)) \<and>
         snd (aggregate_by_group_st h data group_column metrics) ! length h = df_copy (h ! data) \<and>
         (case aggregate_by_group_st h data group_column metrics of
            (Inl e, h') \<Rightarrow> aggregate_by_group (h' ! length h) group_column metrics = Inl e
          | (Inr r, h') \<Rightarrow> aggregate_by_group (h' ! length h) group_column metrics = Inr (h' ! r))"
  using assms
  by (simp add: aggregate_by_group_st_def load_def alloc_def Let_def nth_append
      split: sum.splits)

lemma calculate_cost_savings_st_result:
  assumes "data < length h"
  shows "case calculate_cost_savings_st h data group_col cost_col claim_col of
           (Inl e, h') \<Rightarrow> calculate_cost_savings (h ! data) group_col cost_col claim_col = Inl e
         | (Inr r, h') \<Rightarrow>
             calculate_cost_savings (h ! data) group_col cost_col claim_col = Inr (h' ! r)"
  using assms
  by (simp add: calculate_cost_savings_st_def calculate_cost_savings_def load_def alloc_def
      setitem_def Let_def nth_append split: sum.splits)

lemma segment_data_st_result:
  assumes "data < length h"
  shows "case segment_data_st h data column values_group_a values_group_b of
           (Inl e, h') \<Rightarrow> segment_data (h ! data) column values_group_a values_group_b = Inl e
         | (Inr (a, b), h') \<Rightarrow>
             segment_data (h ! data) column values_group_a values_group_b = Inr (h' ! a, h' ! b)"
  using assms
  by (simp add: segment_data_st_def segment_data_def load_def alloc_def Let_def nth_append
      split: sum.splits)

lemma compute_metric_st_result:
  assumes "data < length h"
  shows "fst (compute_metric_st h data column condition metric_col operation) =
         compute_metric (h ! data) column condition metric_col operation"
  using assms
  by (simp add: compute_metric_st_def compute_metric_def load_def alloc_def Let_def nth_append
      split: sum.splits)

lemma rank_savings_opportunities_st_result:
  assumes "s < length h"
  shows "case rank_savings_opportunities_st sorter h s threshold of
           (Inl e, h') \<Rightarrow> rank_savings_opportunities sorter (h ! s) threshold = Inl e
         | (Inr r, h') \<Rightarrow> rank_savings_opportunities sorter (h ! s) threshold = Inr (h' ! r)"
  using assms
  by (simp add: rank_savings_opportunities_st_def rank_savings_opportunities_def load_def
      alloc_def Let_def nth_append split: sum.splits)

text \<open>
  C9: after a call of any of the ten functions every table that existed before the call,
  the caller's input among them, is in the store with the rows and columns it had; the
  functions only add tables. The two column assignments of \<open>calculate_cost_savings\<close>
  write into the table its aggregation built. \<open>aggregate_by_group\<close> first makes a
  copy of its input, a new table with the input's content, and groups the copy.
\<close>

theorem inputs_unchanged:
  "unchanged h (snd (segment_data_st h data column values_group_a values_group_b)) \<and>
   unchanged h (snd (aggregate_by_group_st h data group_column metrics)) \<and>
   unchanged h (snd (compute_metric_st h data column condition metric_col operation)) \<and>
   unchanged h (snd (calculate_cost_savings_st h data group_col cost_col claim_col)) \<and>
   unchanged h (snd (rank_savings_opportunities_st sorter h data threshold)) \<and>
   unchanged h (snd (generate_contingency_table_st crosstab h data column1 column2 threshold)) \<and>
   unchanged h (snd (perform_t_test_st t_sf h group_a group_b metric)) \<and>
   unchanged h (snd (perform_mannwhitneyu_test_st u_sf h group_a group_b metric)) \<and>
   unchanged h (snd (perform_chi2_test_st chi2_contingency h data)) \<and>
   unchanged h (snd (perform_anova_test_st f_oneway h groups)) \<and>
   (data < length h \<longrightarrow>
      length h < length (snd (aggregate_by_group_st h data group_column metrics)) \<and>
      snd (aggregate_by_group_st h data group_column metrics) ! length h = df_copy (h ! data) \<and>
      (case aggregate_by_group_st h data group_column metrics of
         (Inl e, h') \<Rightarrow> aggregate_by_group (h' ! length h) group_column metrics = Inl e
       | (Inr r, h') \<Rightarrow> aggregate_by_group (h' ! length h) group_column metrics = Inr (h' ! r)))"
  by (intro conjI impI segment_data_st_unchanged aggregate_by_group_st_unchanged
      compute_metric_st_unchanged calculate_cost_savings_st_unchanged
      rank_savings_opportunities_st_unchanged generate_contingency_table_st_unchanged
      runners_unchanged aggregate_by_group_st_copy[THEN conjunct1]
      aggregate_by_group_st_copy[THEN conjunct2, THEN conjunct1]
      aggregate_by_group_st_copy[THEN conjunct2, THEN conjunct2])

theorem inputs_unchanged_witness:
  "take 1 (snd (calculate_cost_savings_st [example_data] 0 ''Province'' ''TotalPremium''
                  ''TotalClaims'')) = [example_data] \<and>
   map columns (snd (calculate_cost_savings_st [example_data] 0 ''Province'' ''TotalPremium''
                  ''TotalClaims'')) =
     [[Col ''Province'', Col ''TotalPremium'', Col ''TotalClaims''],
      [Col ''TotalCost'', Col ''TotalClaims'', Col ''SavingsPotential'', Col ''SavingsPercentage''],
      [Col ''Province'', Col ''TotalCost'', Col ''TotalClaims'', Col ''SavingsPotential'',
       Col ''SavingsPercentage'']] \<and>
   snd (aggregate_by_group_st [example_data] 0 ''Province'' [''TotalPremium'']) ! 1 =
     example_data \<and>
   snd (aggregate_by_group_st [example_data] 0 ''Province'' [''TotalPremium'']) ! 0 =
     example_data"
proof -
  note T = inputs_unchanged[of "[example_data]" 0 _ _ _ "''Province''" "[''TotalPremium'']" _ _ _
      "''Province''" "''TotalPremium''" "''TotalClaims''"]
  have u: "unchanged [example_data]
      (snd (calculate_cost_savings_st [example_data] 0 ''Province'' ''TotalPremium''
              ''TotalClaims''))"
    using T by blast
  have a: "unchanged [example_data]
      (snd (aggregate_by_group_st [example_data] 0 ''Province'' [''TotalPremium'']))"
    using T by blast
  have l: "(0::nat) < length [example_data]"
    by simp
  have c: "snd (aggregate_by_group_st [example_data] 0 ''Province'' [''TotalPremium'']) !
             length [example_data] = df_copy ([example_data] ! 0)"
    using T l by blast
  have cols: "map columns (snd (calculate_cost_savings_st [example_data] 0 ''Province''
                  ''TotalPremium'' ''TotalClaims'')) =
     [[Col ''Province'', Col ''TotalPremium'', Col ''TotalClaims''],
      [Col ''TotalCost'', Col ''TotalClaims'', Col ''SavingsPotential'', Col ''SavingsPercentage''],
      [Col ''Province'', Col ''TotalCost'', Col ''TotalClaims'', Col ''SavingsPotential'',
       Col ''SavingsPercentage'']]"
    by (simp add: calculate_cost_savings_st_def load_def alloc_def setitem_def
        agg_named_sum_def groupby_def get_column_def example_data_def group_keys_def
        group_rows_def cell_at_def column_of_def series_sum_def nansum_def dropna_def
        series_binop_def series_scalar_def set_column_def reset_index_def index_label_def
        range_index_def fsub_def less_eq_cell_def upt_rec Let_def)
  show ?thesis
    using u a c cols unchanged_nth[OF a, of 0]
    by (simp add: unchanged_def df_copy_def)
qed

end
